theory Spec2Isabelle
  imports Complex_Main "HOL-Library.List_Lexorder" "HOL-Library.Char_ord"
begin

section \<open>Data model\<close>

text \<open>
  The program is \<^verbatim>\<open>streamlit_app.py\<close>: \<^verbatim>\<open>extract_alloc\<close>, \<^verbatim>\<open>merge_allocations\<close>,
  \<^verbatim>\<open>build_workbook\<close> and the top-level script that drives them.

  A spreadsheet cell, as pandas hands it over, is a missing value (NaN, None or
  \<^verbatim>\<open>pd.NA\<close>), a number or a string. Numbers are exact rationals here: the claims use
  sums, comparisons and the test for a whole number, never rounding.
\<close>

datatype cell = Null | Num rat | Str string

text \<open>
  A \<^verbatim>\<open>DataFrame\<close>: its column labels in order, and its rows in order, each row listing
  its cells in the order of the labels. A cell is read by label (\<open>cell_at\<close>); a row
  that is shorter than the label list reads as missing there, as a padded
  spreadsheet row does. Labels are looked up from the left, so the frames stand for
  pandas frames whose labels are distinct.
\<close>

record dataframe =
  columns :: "string list"
  rows :: "cell list list"

definition cell_at :: "string list \<Rightarrow> cell list \<Rightarrow> string \<Rightarrow> cell" where
  "cell_at cols row c = (case map_of (zip cols row) c of None \<Rightarrow> Null | Some v \<Rightarrow> v)"

definition column :: "dataframe \<Rightarrow> string \<Rightarrow> cell list" where
  "column d c = map (\<lambda>r. cell_at (columns d) r c) (rows d)"

text \<open>
  How a run ends when it does not produce the document: \<^verbatim>\<open>st.info\<close> or \<^verbatim>\<open>st.error\<close>
  followed by \<^verbatim>\<open>st.stop()\<close>, or an exception that nothing catches.
\<close>

datatype failure = StopInfo | StopError | KeyError | TypeError | IndexError | ValueError





subsection \<open>Constants\<close>

definition KEY_COLS :: "string list" where
  "KEY_COLS = [''Store Number'', ''Store Name'', ''Address Line 1'', ''Address Line 2'',
     ''City or Town'', ''County'', ''Country'', ''Post Code'', ''Region / Area'',
     ''Location Type'', ''Trading Format'']"


definition py_index :: "'a list \<Rightarrow> 'a \<Rightarrow> nat" where
  "py_index xs x = length (takeWhile (\<lambda>y. y \<noteq> x) xs)"

definition LABEL_COL_XL :: int where
  "LABEL_COL_XL = int (py_index KEY_COLS ''Trading Format'') + 1"

definition ITEM_START_XL :: int where
  "ITEM_START_XL = LABEL_COL_XL + 1"

subsection \<open>Python strings\<close>






definition to_numeric :: "(string \<Rightarrow> rat option) \<Rightarrow> cell \<Rightarrow> cell" where
  "to_numeric tn v = (case v of Null \<Rightarrow> Null | Num r \<Rightarrow> Num r
     | Str s \<Rightarrow> (case tn s of None \<Rightarrow> Null | Some r \<Rightarrow> Num r))"

section \<open>extract_alloc\<close>

definition is_whole :: "rat \<Rightarrow> bool" where
  "is_whole r = (of_int (floor r) = r)"










section \<open>merge_allocations\<close>

text \<open>\<^verbatim>\<open>pd.concat(dfs, ignore_index=True, sort=False)\<close>: the labels in the order they
  first occur, the rows one frame after the other, missing where a frame lacks a label.\<close>

definition ordered_union :: "string list list \<Rightarrow> string list" where
  "ordered_union xss = rev (remdups (rev (concat xss)))"

definition concat_dfs :: "dataframe list \<Rightarrow> dataframe" where
  "concat_dfs dfs =
     (let cols = ordered_union (map columns dfs) in
      \<lparr>columns = cols,
       rows = concat (map (\<lambda>d. map (\<lambda>r. map (cell_at (columns d) r) cols) (rows d)) dfs)\<rparr>)"

fun nums_of :: "cell list \<Rightarrow> rat list" where
  "nums_of [] = []"
| "nums_of (Num r # vs) = r # nums_of vs"
| "nums_of (v # vs) = nums_of vs"

fun strs_of :: "cell list \<Rightarrow> string list" where
  "strs_of [] = []"
| "strs_of (Str s # vs) = s # strs_of vs"
| "strs_of (v # vs) = strs_of vs"

text \<open>The keys of \<^verbatim>\<open>groupby\<close>: the distinct values of the key column that are not
  missing (\<^verbatim>\<open>dropna=True\<close> is the default), sorted, numbers before strings.\<close>

definition group_keys :: "cell list \<Rightarrow> cell list" where
  "group_keys ks = map Num (sort (remdups (nums_of ks))) @ map Str (sort (remdups (strs_of ks)))"

text \<open>The aggregation \<^verbatim>\<open>"first"\<close> is the first value of the group that is not missing;
  \<^verbatim>\<open>"sum"\<close> skips missing values and is 0 on a group without any value.\<close>

definition agg_first :: "cell list \<Rightarrow> cell" where
  "agg_first vs = (case filter (\<lambda>v. v \<noteq> Null) vs of [] \<Rightarrow> Null | v # _ \<Rightarrow> v)"

definition agg_sum :: "cell list \<Rightarrow> rat" where
  "agg_sum vs = sum_list (nums_of vs)"

definition agg_rules :: "string \<Rightarrow> cell list \<Rightarrow> cell" where
  "agg_rules c vs = (if c \<in> set KEY_COLS then agg_first vs else Num (agg_sum vs))"

definition merge_allocations :: "(string \<Rightarrow> rat option) \<Rightarrow> dataframe list \<Rightarrow> failure + dataframe" where
  "merge_allocations tn dfs =
     (if dfs = [] then Inr \<lparr>columns = [], rows = []\<rparr>
      else
        (let cols = columns (concat_dfs dfs);
             combined = map (\<lambda>r. map (\<lambda>c. if c \<notin> set KEY_COLS then to_numeric tn (cell_at cols r c)
                                              else cell_at cols r c) cols)
                            (rows (concat_dfs dfs))
         in if ''Store Number'' \<notin> set cols then Inl KeyError
            else
              (let sn = map (\<lambda>r. cell_at cols r ''Store Number'') combined;
                   out_cols = ''Store Number'' # filter (\<lambda>c. c \<noteq> ''Store Number'') cols
               in if nums_of sn \<noteq> [] \<and> strs_of sn \<noteq> [] then Inl TypeError
                  else Inr \<lparr>columns = out_cols,
                            rows = map (\<lambda>k. map (\<lambda>c. if c = ''Store Number'' then k
                                                       else agg_rules c
                                                              (map (\<lambda>r. cell_at cols r c)
                                                                 (filter (\<lambda>r. cell_at cols r ''Store Number'' = k) combined)))
                                                 out_cols)
                                       (group_keys sn)\<rparr>)))"

section \<open>build_workbook\<close>






text \<open>\<^verbatim>\<open>df[item].fillna(0).sum()\<close>. The item columns of a merged frame hold numbers
  only; a string there is outside what \<^verbatim>\<open>merge_allocations\<close> returns and is given as
  a \<^verbatim>\<open>TypeError\<close>.\<close>

definition is_Str :: "cell \<Rightarrow> bool" where
  "is_Str v = (case v of Str _ \<Rightarrow> True | _ \<Rightarrow> False)"








section \<open>The script\<close>



text \<open>\<^verbatim>\<open>df[labels]\<close>: a label that the frame does not have is a \<^verbatim>\<open>KeyError\<close>.\<close>

definition df_select :: "dataframe \<Rightarrow> string list \<Rightarrow> failure + dataframe" where
  "df_select d cs =
     (if list_all (\<lambda>c. c \<in> set (columns d)) cs
      then Inr \<lparr>columns = cs, rows = map (\<lambda>r. map (cell_at (columns d) r) cs) (rows d)\<rparr>
      else Inl KeyError)"






section \<open>Notions used to state the properties\<close>

text \<open>The values of the key column over all the tables handed to
  \<^verbatim>\<open>merge_allocations\<close>, and the values that one column has in the rows of one store,
  both in the order of the concatenation.\<close>

definition store_values :: "dataframe list \<Rightarrow> cell list" where
  "store_values dfs = concat (map (\<lambda>d. column d ''Store Number'') dfs)"

definition group_values :: "dataframe list \<Rightarrow> cell \<Rightarrow> string \<Rightarrow> cell list" where
  "group_values dfs k c =
     concat (map (\<lambda>d. map (\<lambda>r. cell_at (columns d) r c)
                         (filter (\<lambda>r. cell_at (columns d) r ''Store Number'' = k) (rows d))) dfs)"

definition merged_value :: "(string \<Rightarrow> rat option) \<Rightarrow> dataframe list \<Rightarrow> cell \<Rightarrow> string \<Rightarrow> cell" where
  "merged_value tn dfs k c =
     (if c \<in> set KEY_COLS then agg_first (group_values dfs k c)
      else Num (agg_sum (map (to_numeric tn) (group_values dfs k c))))"

text \<open>A table as \<^verbatim>\<open>extract_alloc\<close> returns it: it has the key column, and the key
  column has the \<^verbatim>\<open>Int64\<close> type (whole numbers and missing values).\<close>

definition int64_cell :: "cell \<Rightarrow> bool" where
  "int64_cell v = (case v of Null \<Rightarrow> True | Num r \<Rightarrow> is_whole r | Str _ \<Rightarrow> False)"

definition extracted_table :: "dataframe \<Rightarrow> bool" where
  "extracted_table d =
     (''Store Number'' \<in> set (columns d) \<and> list_all int64_cell (column d ''Store Number''))"

section \<open>Sample inputs\<close>

text \<open>A reader of decimal digits and a writer of whole numbers stand for the two
  library functions where a concrete run is evaluated, and two small exports.\<close>

fun digits_value :: "string \<Rightarrow> nat \<Rightarrow> nat option" where
  "digits_value [] acc = Some acc"
| "digits_value (ch # s) acc =
     (let n = (of_char ch :: nat) in
      if 48 \<le> n \<and> n \<le> 57 then digits_value s (10 * acc + (n - 48)) else None)"

definition read_decimal :: "string \<Rightarrow> rat option" where
  "read_decimal s = (if s = [] then None else map_option of_nat (digits_value s 0))"







definition table_x :: dataframe where
  "table_x = \<lparr>columns = [''Store Number'', ''Store Name'', ''A1''],
               rows = [[Num 2, Str ''North'', Num 4], [Num 1, Null, Num 3], [Null, Str ''Ghost'', Num 9]]\<rparr>"

definition table_y :: dataframe where
  "table_y = \<lparr>columns = [''Store Number'', ''Store Name'', ''A1''],
               rows = [[Num 1, Str ''South'', Num 5]]\<rparr>"












definition merged_xy :: dataframe where
  "merged_xy = \<lparr>columns = [''Store Number'', ''Store Name'', ''A1''],
                 rows = [[Num 1, Str ''South'', Num 8], [Num 2, Str ''North'', Num 4]]\<rparr>"

section \<open>Facts about frames and the merge\<close>

lemma store_number_key: "''Store Number'' \<in> set KEY_COLS"
  by (simp add: KEY_COLS_def)

lemma cell_at_map: "c \<in> set cols \<Longrightarrow> cell_at cols (map f cols) c = f c"
  by (simp add: cell_at_def map_of_zip_map)


lemma set_ordered_union: "set (ordered_union xss) = \<Union> (set ` set xss)"
  by (simp add: ordered_union_def)


lemma map_filter_concat_map:
  "map G (filter P (concat (map (\<lambda>d. map (F d) (R d)) dfs)))
     = concat (map (\<lambda>d. map (\<lambda>r. G (F d r)) (filter (\<lambda>r. P (F d r)) (R d))) dfs)"
  by (induction dfs) (simp_all add: filter_map comp_def)

lemma merge_allocations_unfold:
  assumes "dfs \<noteq> []"
  shows "merge_allocations tn dfs =
     (if ''Store Number'' \<notin> set (ordered_union (map columns dfs)) then Inl KeyError
      else if nums_of (store_values dfs) \<noteq> [] \<and> strs_of (store_values dfs) \<noteq> [] then Inl TypeError
      else Inr \<lparr>columns = ''Store Number'' # filter (\<lambda>c. c \<noteq> ''Store Number'') (ordered_union (map columns dfs)),
                rows = map (\<lambda>k. map (\<lambda>c. if c = ''Store Number'' then k else merged_value tn dfs k c)
                                   (''Store Number'' # filter (\<lambda>c. c \<noteq> ''Store Number'') (ordered_union (map columns dfs))))
                           (group_keys (store_values dfs))\<rparr>)"
proof (cases "''Store Number'' \<in> set (ordered_union (map columns dfs))")
  case False
  then show ?thesis using assms
    by (simp add: merge_allocations_def concat_dfs_def Let_def)
next
  case sn: True
  define U where "U = ordered_union (map columns dfs)"
  define F where "F = (\<lambda>(d::dataframe) r. map (\<lambda>c. if c \<notin> set KEY_COLS then to_numeric tn (cell_at U (map (cell_at (columns d) r) U) c)
                                              else cell_at U (map (cell_at (columns d) r) U) c) U)"
  define combined where "combined = concat (map (\<lambda>d. map (F d) (rows d)) dfs)"
  have comb: "map (\<lambda>r. map (\<lambda>c. if c \<notin> set KEY_COLS then to_numeric tn (cell_at U r c) else cell_at U r c) U)
                 (rows (concat_dfs dfs)) = combined"
    unfolding combined_def F_def U_def concat_dfs_def Let_def
    by (simp add: map_concat comp_def)
  have cellF: "cell_at U (F d r) c = (if c \<notin> set KEY_COLS then to_numeric tn (cell_at (columns d) r c) else cell_at (columns d) r c)"
    if "c \<in> set U" for d r c
    using that by (simp add: F_def cell_at_map)
  have snU: "''Store Number'' \<in> set U" using sn by (simp add: U_def)
  have snF: "cell_at U (F d r) ''Store Number'' = cell_at (columns d) r ''Store Number''" for d r
    using cellF[OF snU] store_number_key by simp
  have sv: "map (\<lambda>r. cell_at U r ''Store Number'') combined = store_values dfs"
    unfolding combined_def store_values_def column_def
    by (simp add: map_concat comp_def snF)
  have grp: "agg_rules c (map (\<lambda>r. cell_at U r c) (filter (\<lambda>r. cell_at U r ''Store Number'' = k) combined))
               = merged_value tn dfs k c" if "c \<in> set U" for c k
  proof -
    have "map (\<lambda>r. cell_at U r c) (filter (\<lambda>r. cell_at U r ''Store Number'' = k) combined)
          = concat (map (\<lambda>d. map (\<lambda>r. cell_at U (F d r) c)
                                (filter (\<lambda>r. cell_at U (F d r) ''Store Number'' = k) (rows d))) dfs)"
      unfolding combined_def by (rule map_filter_concat_map)
    also have "\<dots> = map (\<lambda>v. if c \<notin> set KEY_COLS then to_numeric tn v else v) (group_values dfs k c)"
      by (simp add: group_values_def map_concat comp_def snF cellF[OF that])
    finally show ?thesis
      by (simp add: agg_rules_def merged_value_def)
  qed
  have rows_eq: "map (\<lambda>k. map (\<lambda>c. if c = ''Store Number'' then k
                                    else agg_rules c (map (\<lambda>r. cell_at U r c) (filter (\<lambda>r. cell_at U r ''Store Number'' = k) combined)))
                              (''Store Number'' # filter (\<lambda>c. c \<noteq> ''Store Number'') U)) ks
               = map (\<lambda>k. map (\<lambda>c. if c = ''Store Number'' then k else merged_value tn dfs k c)
                              (''Store Number'' # filter (\<lambda>c. c \<noteq> ''Store Number'') U)) ks" for ks
    by (rule map_cong[OF refl], rule map_cong[OF refl]) (auto simp: grp)
  have cols: "columns (concat_dfs dfs) = U"
    by (simp add: concat_dfs_def Let_def U_def)
  show ?thesis
    using assms snU
    by (simp add: merge_allocations_def Let_def cols comb sv grp flip: U_def)
qed

lemma strs_of_empty: "list_all (\<lambda>v. \<not> is_Str v) vs \<Longrightarrow> strs_of vs = []"
  by (induction vs rule: strs_of.induct) (simp_all add: is_Str_def)

lemma int64_not_Str: "int64_cell v \<Longrightarrow> \<not> is_Str v"
  by (cases v) (simp_all add: int64_cell_def is_Str_def)

lemma store_values_int64:
  "list_all extracted_table dfs \<Longrightarrow> list_all int64_cell (store_values dfs)"
  by (induction dfs) (simp_all add: store_values_def extracted_table_def)

lemma merged_store_column:
  assumes "merge_allocations tn dfs = Inr m" "dfs \<noteq> []"
  shows "column m ''Store Number'' = group_keys (store_values dfs)"
proof -
  let ?cs = "''Store Number'' # filter (\<lambda>c. c \<noteq> ''Store Number'') (ordered_union (map columns dfs))"
  have m: "m = \<lparr>columns = ?cs,
                 rows = map (\<lambda>k. map (\<lambda>c. if c = ''Store Number'' then k else merged_value tn dfs k c) ?cs)
                            (group_keys (store_values dfs))\<rparr>"
    using assms by (simp add: merge_allocations_unfold split: if_splits)
  have "cell_at ?cs (map (\<lambda>c. if c = ''Store Number'' then k else merged_value tn dfs k c) ?cs) ''Store Number'' = k" for k
    by (subst cell_at_map) simp_all
  then show ?thesis
    by (subst m) (simp add: column_def comp_def)
qed

lemma distinct_group_keys: "distinct (group_keys ks)"
  by (auto simp: group_keys_def distinct_map inj_on_def)




lemma merge_allocations_Inr:
  assumes "merge_allocations tn dfs = Inr m" "dfs \<noteq> []"
  shows "m = \<lparr>columns = ''Store Number'' # filter (\<lambda>c. c \<noteq> ''Store Number'') (ordered_union (map columns dfs)),
              rows = map (\<lambda>k. map (\<lambda>c. if c = ''Store Number'' then k else merged_value tn dfs k c)
                                   (''Store Number'' # filter (\<lambda>c. c \<noteq> ''Store Number'') (ordered_union (map columns dfs))))
                         (group_keys (store_values dfs))\<rparr>"
  using assms by (simp add: merge_allocations_unfold split: if_splits)


lemma merged_row:
  assumes "merge_allocations tn dfs = Inr m" "dfs \<noteq> []" "row \<in> set (rows m)"
  shows "cell_at (columns m) row ''Store Number'' \<in> set (group_keys (store_values dfs))"
    and "c \<in> set (columns m) \<Longrightarrow> c \<noteq> ''Store Number'' \<Longrightarrow>
           cell_at (columns m) row c = merged_value tn dfs (cell_at (columns m) row ''Store Number'') c"
proof -
  let ?cs = "''Store Number'' # filter (\<lambda>c. c \<noteq> ''Store Number'') (ordered_union (map columns dfs))"
  note m = merge_allocations_Inr[OF assms(1,2)]
  have cols: "columns m = ?cs" by (subst m) simp
  obtain k where k: "k \<in> set (group_keys (store_values dfs))"
    and row: "row = map (\<lambda>c. if c = ''Store Number'' then k else merged_value tn dfs k c) ?cs"
    using assms(3) by (subst (asm) m) auto
  have sn: "cell_at (columns m) row ''Store Number'' = k"
    unfolding cols row by (subst cell_at_map) simp_all
  show "cell_at (columns m) row ''Store Number'' \<in> set (group_keys (store_values dfs))"
    using k sn by simp
  show "cell_at (columns m) row c = merged_value tn dfs (cell_at (columns m) row ''Store Number'') c"
    if "c \<in> set (columns m)" "c \<noteq> ''Store Number''"
  proof -
    have "cell_at ?cs row c = merged_value tn dfs k c"
      unfolding row using that cols by (subst cell_at_map) simp_all
    then show ?thesis using sn cols by simp
  qed
qed


lemma agg_first_find:
  "agg_first vs = (case find (\<lambda>v. v \<noteq> Null) vs of None \<Rightarrow> Null | Some v \<Rightarrow> v)"
  by (induction vs) (simp_all add: agg_first_def)




subsection \<open>The loop over the uploads\<close>



lemma df_select_KeyError:
  "\<not> set cs \<subseteq> set (columns d) \<Longrightarrow> df_select d cs = Inl KeyError"
  by (auto simp: df_select_def list_all_iff)










subsection \<open>The sample runs\<close>






lemma merge_xy: "merge_allocations read_decimal [table_x, table_y] = Inr merged_xy"
  by code_simp

section \<open>The claims\<close>

text \<open>
  C1. For every non-empty list of extracted allocation tables, \<^verbatim>\<open>merge_allocations\<close>
  returns a table whose store-number column has no duplicate values and whose rows are
  sorted ascending by store number: the column is a list of numbers \<open>ks\<close> that is
  sorted and distinct.
\<close>

theorem merge_allocations_sorted_unique:
  assumes "dfs \<noteq> []" and "list_all extracted_table dfs"
  shows "\<exists>m ks. merge_allocations tn dfs = Inr m
           \<and> column m ''Store Number'' = map Num ks \<and> sorted ks \<and> distinct ks"
proof -
  have sn: "''Store Number'' \<in> set (ordered_union (map columns dfs))"
    using assms by (cases dfs) (auto simp: set_ordered_union extracted_table_def)
  have "list_all (\<lambda>v. \<not> is_Str v) (store_values dfs)"
    using store_values_int64[OF assms(2)] by (auto simp: list_all_iff int64_not_Str)
  then have strs: "strs_of (store_values dfs) = []" by (rule strs_of_empty)
  obtain m where m: "merge_allocations tn dfs = Inr m"
    using assms(1) sn strs by (simp add: merge_allocations_unfold)
  have "column m ''Store Number'' = map Num (sort (remdups (nums_of (store_values dfs))))"
    using merged_store_column[OF m assms(1)] strs by (simp add: group_keys_def)
  then show ?thesis using m by (intro exI[of _ m] exI[of _ "sort (remdups (nums_of (store_values dfs)))"]) simp
qed

theorem merge_allocations_sorted_unique_witness:
  "[table_x, table_y] \<noteq> [] \<and> list_all extracted_table [table_x, table_y]
   \<and> (\<exists>m ks. merge_allocations read_decimal [table_x, table_y] = Inr m
          \<and> column m ''Store Number'' = map Num ks \<and> sorted ks \<and> distinct ks)"
proof -
  have h1: "[table_x, table_y] \<noteq> []" by simp
  have h2: "list_all extracted_table [table_x, table_y]" by code_simp
  show ?thesis
    using h1 h2 merge_allocations_sorted_unique[OF h1 h2, of read_decimal] by simp
qed






text \<open>
  C6. As stated the claim fails: the aggregation \<^verbatim>\<open>"first"\<close> of pandas skips missing
  values, so that store 1 of \<open>table_x\<close> and \<open>table_y\<close>, whose first row has no name,
  is given the name of its second row. What holds: every key-attribute column of a
  merged row has the first value that is not missing among the rows of the store, in
  the order of the concatenation, and is missing only when all of them are. This is
  the value of the first row whenever that one is not missing.
\<close>

theorem first_is_first_non_null:
  assumes "merge_allocations tn dfs = Inr m" and "dfs \<noteq> []" and "row \<in> set (rows m)"
    and "c \<in> set KEY_COLS" and "c \<noteq> ''Store Number''" and "c \<in> set (columns m)"
  shows "cell_at (columns m) row c =
           (case find (\<lambda>v. v \<noteq> Null) (group_values dfs (cell_at (columns m) row ''Store Number'') c) of
              None \<Rightarrow> Null | Some v \<Rightarrow> v)"
  using merged_row(2)[OF assms(1,2,3,6,5)] assms(4)
  by (simp add: merged_value_def agg_first_find)

theorem first_is_first_non_null_witness:
  "merge_allocations read_decimal [table_x, table_y] = Inr merged_xy
   \<and> [table_x, table_y] \<noteq> [] \<and> [Num 1, Str ''South'', Num 8] \<in> set (rows merged_xy)
   \<and> ''Store Name'' \<in> set KEY_COLS \<and> ''Store Name'' \<noteq> ''Store Number''
   \<and> ''Store Name'' \<in> set (columns merged_xy)
   \<and> cell_at (columns merged_xy) [Num 1, Str ''South'', Num 8] ''Store Name'' =
        (case find (\<lambda>v. v \<noteq> Null)
                (group_values [table_x, table_y]
                   (cell_at (columns merged_xy) [Num 1, Str ''South'', Num 8] ''Store Number'') ''Store Name'') of
           None \<Rightarrow> Null | Some v \<Rightarrow> v)"
proof -
  have ne: "[table_x, table_y] \<noteq> []" by simp
  have r: "[Num 1, Str ''South'', Num 8] \<in> set (rows merged_xy)" by code_simp
  have k: "''Store Name'' \<in> set KEY_COLS" by code_simp
  have n: "''Store Name'' \<noteq> ''Store Number''" by simp
  have c: "''Store Name'' \<in> set (columns merged_xy)" by code_simp
  from first_is_first_non_null[OF merge_xy ne r k n c]
  show ?thesis using merge_xy ne r k n c by blast
qed

theorem first_row_value_counterexample:
  "merge_allocations read_decimal [table_x, table_y] = Inr merged_xy
   \<and> group_values [table_x, table_y] (Num 1) ''Store Name'' = [Null, Str ''South'']
   \<and> column merged_xy ''Store Number'' = [Num 1, Num 2]
   \<and> column merged_xy ''Store Name'' = [Str ''South'', Str ''North'']"
proof -
  have "group_values [table_x, table_y] (Num 1) ''Store Name'' = [Null, Str ''South'']" by code_simp
  moreover have "column merged_xy ''Store Number'' = [Num 1, Num 2]" by code_simp
  moreover have "column merged_xy ''Store Name'' = [Str ''South'', Str ''North'']" by code_simp
  ultimately show ?thesis using merge_xy by simp
qed

end
